theory Spec2Isabelle
  imports Main "HOL-Library.AList"
begin

section \<open>Data model\<close>

text \<open>
  The generator of \<^verbatim>\<open>strategy_generator.py\<close> works on classes that are imported from
  other modules. Their fields are taken from the way the generator reads and builds them;
  the shapes, sizes and axis indices are natural numbers, the costs are integers.
\<close>

text \<open>
  The element types of torch and \<^verbatim>\<open>torch.tensor([], dtype=dtype).element_size()\<close>,
  the number of bytes of one element.
\<close>

datatype dtype =
  torch_bool | torch_uint8 | torch_int8 | torch_int16 | torch_int32 | torch_int64
  | torch_float16 | torch_bfloat16 | torch_float32 | torch_float64

fun element_size :: "dtype \<Rightarrow> nat" where
  "element_size torch_bool = 1"
| "element_size torch_uint8 = 1"
| "element_size torch_int8 = 1"
| "element_size torch_int16 = 2"
| "element_size torch_int32 = 4"
| "element_size torch_int64 = 8"
| "element_size torch_float16 = 2"
| "element_size torch_bfloat16 = 2"
| "element_size torch_float32 = 4"
| "element_size torch_float64 = 8"

text \<open>
  Modelled from the spec: \<^verbatim>\<open>OperationData\<close> (the operand descriptor) is declared in
  \<^verbatim>\<open>sharding_strategy.py\<close>. It is a plain data class with a name, a role, the tensor
  (of which the generator reads only \<^verbatim>\<open>data.dtype\<close>) and the logical shape.
\<close>

datatype OperationDataType = INPUT | OUTPUT | PARAM

record OperationData =
  op_name :: string
  op_type :: OperationDataType
  data_dtype :: dtype
  logical_shape :: "nat list"

text \<open>
  Modelled from the spec: \<^verbatim>\<open>DeviceMesh\<close> is declared in \<^verbatim>\<open>device_mesh.py\<close>. The grid
  is the ordered sequence of its axis sizes, and \<^verbatim>\<open>flatten()\<close> returns a new grid whose
  single axis has the product of all axis sizes.
\<close>

record DeviceMesh =
  axis_sizes :: "nat list"

definition flatten :: "DeviceMesh \<Rightarrow> DeviceMesh" where
  "flatten mesh = \<lparr>axis_sizes = [prod_list (axis_sizes mesh)]\<rparr>"

text \<open>
  \<^verbatim>\<open>ShardingSpec(device_mesh=..., entire_shape=..., dim_partition_dict=...)\<close>: the
  layout of one tensor. The dictionary from a dimension to the grid axes that shard it is
  kept in insertion order.
\<close>

record ShardingSpec =
  device_mesh :: DeviceMesh
  entire_shape :: "nat list"
  dim_partition_dict :: "(nat \<times> nat list) list"

text \<open>
  Modelled from the spec: \<^verbatim>\<open>CollectiveCommPattern\<close> is an enumeration declared in
  \<^verbatim>\<open>shape_consistency.py\<close>. The generator names two of its members; the other members
  of the closed set are told apart by their name.
\<close>

datatype CollectiveCommPattern =
  REDUCE_FWD_IDENTITY_BWD | IDENTITY_FWD_ALLREDUCE_BWD | OTHER_PATTERN string

text \<open>\<^verbatim>\<open>logical_process_axis: Union[int, List[int]]\<close>.\<close>

datatype process_axis = Axis nat | AxisList "nat list"

text \<open>
  \<^verbatim>\<open>CommSpec(comm_pattern=..., sharding_spec=..., logical_process_axis=...)\<close>.
\<close>

record CommSpec =
  comm_pattern :: CollectiveCommPattern
  sharding_spec :: ShardingSpec
  logical_process_axis :: process_axis

text \<open>\<^verbatim>\<open>TrainCycleItem(fwd=..., bwd=...)\<close>: a forward and a backward cost.\<close>

record TrainCycleItem =
  fwd :: int
  bwd :: int

text \<open>
  A Python dictionary keyed by operands is an association list in insertion order;
  \<^verbatim>\<open>d[k] = v\<close> is \<^const>\<open>AList.update\<close> (the value of a key already there is replaced
  where it stands, a new key goes to the end) and \<^verbatim>\<open>d[k]\<close> is \<^const>\<open>map_of\<close>.

  \<^verbatim>\<open>ShardingStrategy_V2(name=..., sharding_specs=..., communication_actions=...)\<close>: the
  action mapping may be \<^verbatim>\<open>None\<close>, and the three costs are \<^verbatim>\<open>None\<close> until a cost
  phase sets them.
\<close>

record ShardingStrategy_V2 =
  name :: string
  sharding_specs :: "(OperationData \<times> ShardingSpec) list"
  communication_actions :: "(OperationData \<times> CommSpec) list option"
  compute_cost :: "TrainCycleItem option"
  communication_cost :: "TrainCycleItem option"
  memory_cost :: "TrainCycleItem option"

text \<open>
  \<^verbatim>\<open>StrategyGenerator_V2.__init__\<close>: the operand mapping \<^verbatim>\<open>self.op_data\<close> and the
  grid \<^verbatim>\<open>self.device_mesh\<close>.
\<close>

record StrategyGenerator_V2 =
  self_op_data :: "string \<rightharpoonup> OperationData"
  self_device_mesh :: DeviceMesh

text \<open>
  The exceptions. \<open>UnknownOperand n\<close> is the \<^verbatim>\<open>KeyError\<close> of \<^verbatim>\<open>self.op_data[n]\<close>,
  \<open>MissingLayout d\<close> the \<^verbatim>\<open>KeyError\<close> of \<^verbatim>\<open>strategy.sharding_specs[d]\<close>,
  \<open>UnsupportedCommPattern p\<close> the \<^verbatim>\<open>ValueError\<close> raised for an unknown communication
  pattern, \<open>NonDivisibleShard\<close> the failure of the per-device shape. The others are raised
  by the interpreter: \<open>TypeError\<close> (unpacking an object that is not iterable,
  \<^verbatim>\<open>reduce\<close> of an empty sequence without initial value), \<open>ValueError\<close> (unpacking a
  sequence of the wrong length), \<open>AttributeError\<close>, \<open>IndexError\<close> and
  \<open>ZeroDivisionError\<close>.
\<close>

datatype error =
  UnknownOperand string
  | MissingLayout OperationData
  | UnsupportedCommPattern CollectiveCommPattern
  | NonDivisibleShard
  | TypeError
  | ValueError
  | AttributeError
  | IndexError
  | ZeroDivisionError

section \<open>Layout construction and strategy assembly\<close>

text \<open>
  \<^verbatim>\<open>to_sharding_spec_mapping\<close>: the loop over \<^verbatim>\<open>mapping.items()\<close>, which looks every
  name up in \<^verbatim>\<open>self.op_data\<close> and stores a layout under the name.
\<close>

fun to_sharding_spec_mapping_loop ::
  "StrategyGenerator_V2 \<Rightarrow> (string \<times> (nat \<times> nat list) list) list \<Rightarrow>
   (string \<times> ShardingSpec) list \<Rightarrow> error + (string \<times> ShardingSpec) list" where
  "to_sharding_spec_mapping_loop self [] results = Inr results"
| "to_sharding_spec_mapping_loop self ((op_data_name, dim_partition) # rest) results =
     (case self_op_data self op_data_name of
        None \<Rightarrow> Inl (UnknownOperand op_data_name)
      | Some op_data \<Rightarrow>
          to_sharding_spec_mapping_loop self rest
            (AList.update op_data_name
               \<lparr>device_mesh = self_device_mesh self,
                entire_shape = logical_shape op_data,
                dim_partition_dict = dim_partition\<rparr> results))"

definition to_sharding_spec_mapping ::
  "StrategyGenerator_V2 \<Rightarrow> (string \<times> (nat \<times> nat list) list) list \<Rightarrow>
   error + (string \<times> ShardingSpec) list" where
  "to_sharding_spec_mapping self mapping = to_sharding_spec_mapping_loop self mapping []"

text \<open>
  \<^verbatim>\<open>replace_op_name_with_op_data\<close>: the loop over \<^verbatim>\<open>mapping.items()\<close>, which stores
  every value under the operand its name stands for.
\<close>

fun replace_op_name_with_op_data_loop ::
  "StrategyGenerator_V2 \<Rightarrow> (string \<times> 'v) list \<Rightarrow> (OperationData \<times> 'v) list \<Rightarrow>
   error + (OperationData \<times> 'v) list" where
  "replace_op_name_with_op_data_loop self [] results = Inr results"
| "replace_op_name_with_op_data_loop self ((k, v) # rest) results =
     (case self_op_data self k of
        None \<Rightarrow> Inl (UnknownOperand k)
      | Some op_data \<Rightarrow>
          replace_op_name_with_op_data_loop self rest (AList.update op_data v results))"

definition replace_op_name_with_op_data ::
  "StrategyGenerator_V2 \<Rightarrow> (string \<times> 'v) list \<Rightarrow> error + (OperationData \<times> 'v) list" where
  "replace_op_name_with_op_data self mapping = replace_op_name_with_op_data_loop self mapping []"

text \<open>
  \<^verbatim>\<open>get_sharding_strategy\<close>: both mappings are rekeyed, the layouts first, and the
  strategy is built with its costs unset.
\<close>

definition get_sharding_strategy ::
  "StrategyGenerator_V2 \<Rightarrow> string \<Rightarrow> (string \<times> ShardingSpec) list \<Rightarrow>
   (string \<times> CommSpec) list \<Rightarrow> error + ShardingStrategy_V2" where
  "get_sharding_strategy self nm sharding_spec_mapping communication_action_mapping =
     (case replace_op_name_with_op_data self sharding_spec_mapping of
        Inl e \<Rightarrow> Inl e
      | Inr specs \<Rightarrow>
          (case replace_op_name_with_op_data self communication_action_mapping of
             Inl e \<Rightarrow> Inl e
           | Inr actions \<Rightarrow>
               Inr \<lparr>name = nm, sharding_specs = specs, communication_actions = Some actions,
                    compute_cost = None, communication_cost = None, memory_cost = None\<rparr>))"

section \<open>The communication-spec factory\<close>

text \<open>
  \<^verbatim>\<open>get_communication_spec\<close> assigns to \<^verbatim>\<open>sharding_spec.device_mesh\<close> when the axis
  is a list of length two, so the caller's layout object changes; the returned
  \<^verbatim>\<open>CommSpec\<close> refers to that same object. The model returns the layout after the call
  together with the \<^verbatim>\<open>CommSpec\<close>.
\<close>

fun get_communication_spec ::
  "ShardingSpec \<Rightarrow> CollectiveCommPattern \<Rightarrow> process_axis \<Rightarrow> ShardingSpec \<times> CommSpec" where
  "get_communication_spec spec communication_pattern (AxisList [a, b]) =
     (let spec' = spec\<lparr>device_mesh := flatten (device_mesh spec)\<rparr>
      in (spec', \<lparr>comm_pattern = communication_pattern, sharding_spec = spec',
                  logical_process_axis = Axis 0\<rparr>))"
| "get_communication_spec spec communication_pattern axis =
     (spec, \<lparr>comm_pattern = communication_pattern, sharding_spec = spec,
             logical_process_axis = axis\<rparr>)"

section \<open>The communication cost\<close>

text \<open>
  Python values as far as the loop of \<^verbatim>\<open>update_communication_cost\<close> meets them, and
  the unpacking of one value into two targets, \<^verbatim>\<open>a, b = x\<close>: a sequence of two elements
  gives them, a sequence of another length raises \<^verbatim>\<open>ValueError\<close>, and an object that is
  not iterable (an instance of a plain class) raises \<^verbatim>\<open>TypeError\<close>.
\<close>

datatype pyobj =
  Obj_OperationData OperationData
  | Obj_CommSpec CommSpec
  | Obj_tuple "pyobj list"

fun unpack_two :: "pyobj \<Rightarrow> error + pyobj \<times> pyobj" where
  "unpack_two (Obj_tuple [a, b]) = Inr (a, b)"
| "unpack_two (Obj_tuple xs) = Inl ValueError"
| "unpack_two (Obj_OperationData d) = Inl TypeError"
| "unpack_two (Obj_CommSpec c) = Inl TypeError"

text \<open>
  Iterating a dictionary (\<^verbatim>\<open>for x in d\<close>, without \<^verbatim>\<open>.items()\<close>) yields its keys.
\<close>

definition dict_iter :: "(OperationData \<times> 'v) list \<Rightarrow> pyobj list" where
  "dict_iter d = map (\<lambda>kv. Obj_OperationData (fst kv)) d"

text \<open>
  \<^verbatim>\<open>_compute_and_add\<close>. Its parameter \<^verbatim>\<open>data\<close> is not read: the body reads the loop
  variable \<^verbatim>\<open>operand\<close> of the enclosing function, which holds the same value at every
  call. \<^verbatim>\<open>comm_spec.get_comm_cost()\<close> is a method of \<^verbatim>\<open>CommSpec\<close> in
  \<^verbatim>\<open>shape_consistency.py\<close> and is the parameter \<open>get_comm_cost\<close>; the accumulator
  \<^verbatim>\<open>comm_cost\<close> of the enclosing function is passed in and returned.
\<close>

definition compute_and_add ::
  "(CommSpec \<Rightarrow> int) \<Rightarrow> pyobj \<Rightarrow> pyobj \<Rightarrow> TrainCycleItem \<Rightarrow> error + TrainCycleItem" where
  "compute_and_add get_comm_cost operand comm_spec comm_cost =
     (case comm_spec of
        Obj_CommSpec cs \<Rightarrow>
          (let num_ele_in_comm = get_comm_cost cs in
           case operand of
             Obj_OperationData od \<Rightarrow>
               (let size_per_elem_bytes = int (element_size (data_dtype od));
                    cost = size_per_elem_bytes * num_ele_in_comm
                in if comm_pattern cs = REDUCE_FWD_IDENTITY_BWD
                   then Inr (comm_cost\<lparr>fwd := fwd comm_cost + cost\<rparr>)
                   else if comm_pattern cs = IDENTITY_FWD_ALLREDUCE_BWD
                   then Inr (comm_cost\<lparr>fwd := fwd comm_cost + cost\<rparr>)
                   else Inl (UnsupportedCommPattern (comm_pattern cs)))
           | _ \<Rightarrow> Inl AttributeError)
      | _ \<Rightarrow> Inl AttributeError)"

text \<open>
  The loop \<^verbatim>\<open>for operand, comm_spec in strategy.communication_actions\<close>: every value the
  iteration yields is unpacked into the two loop variables before the body runs.
\<close>

fun communication_actions_loop ::
  "(CommSpec \<Rightarrow> int) \<Rightarrow> pyobj list \<Rightarrow> TrainCycleItem \<Rightarrow> error + TrainCycleItem" where
  "communication_actions_loop get_comm_cost [] comm_cost = Inr comm_cost"
| "communication_actions_loop get_comm_cost (x # xs) comm_cost =
     (case unpack_two x of
        Inl e \<Rightarrow> Inl e
      | Inr (operand, comm_spec) \<Rightarrow>
          (case compute_and_add get_comm_cost operand comm_spec comm_cost of
             Inl e \<Rightarrow> Inl e
           | Inr comm_cost' \<Rightarrow> communication_actions_loop get_comm_cost xs comm_cost'))"

text \<open>
  \<^verbatim>\<open>update_communication_cost\<close> changes the strategy in place and returns it. The model
  returns the exception, if one was raised, and the strategy object after the call. The
  only assignment to the strategy is the last statement before \<^verbatim>\<open>return\<close>, so an
  exception leaves the object as it was.
\<close>

definition update_communication_cost ::
  "(CommSpec \<Rightarrow> int) \<Rightarrow> ShardingStrategy_V2 \<Rightarrow> error option \<times> ShardingStrategy_V2" where
  "update_communication_cost get_comm_cost strategy =
     (let comm_cost = \<lparr>fwd = 0, bwd = 0\<rparr>;
          r = (case communication_actions strategy of
                 None \<Rightarrow> Inr comm_cost
               | Some actions \<Rightarrow>
                   communication_actions_loop get_comm_cost (dict_iter actions) comm_cost)
      in case r of
           Inl e \<Rightarrow> (Some e, strategy)
         | Inr c \<Rightarrow> (None, strategy\<lparr>communication_cost := Some c\<rparr>))"

section \<open>The per-device shape and the size in bytes\<close>

text \<open>
  Modelled from the spec: \<^verbatim>\<open>ShardingSpec.get_sharded_shape_per_device\<close> is declared in
  \<^verbatim>\<open>sharding_spec.py\<close>. The per-device shape is the logical shape with each partitioned
  dimension divided by the product of the sizes of its assigned axes; a dimension that
  does not divide evenly fails with \<open>NonDivisibleShard\<close>. A dimension or an axis that
  does not exist is an \<^verbatim>\<open>IndexError\<close>, a product of zero a \<^verbatim>\<open>ZeroDivisionError\<close>.
\<close>

fun axes_product :: "nat list \<Rightarrow> nat list \<Rightarrow> error + nat" where
  "axes_product sizes [] = Inr 1"
| "axes_product sizes (a # as) =
     (if a < length sizes
      then (case axes_product sizes as of
              Inl e \<Rightarrow> Inl e
            | Inr p \<Rightarrow> Inr (sizes ! a * p))
      else Inl IndexError)"

fun shard_dimensions ::
  "nat list \<Rightarrow> (nat \<times> nat list) list \<Rightarrow> nat list \<Rightarrow> error + nat list" where
  "shard_dimensions sizes [] shape = Inr shape"
| "shard_dimensions sizes ((dim, axes) # rest) shape =
     (if dim < length shape
      then (case axes_product sizes axes of
              Inl e \<Rightarrow> Inl e
            | Inr p \<Rightarrow>
                if p = 0 then Inl ZeroDivisionError
                else if shape ! dim mod p \<noteq> 0 then Inl NonDivisibleShard
                else shard_dimensions sizes rest (shape[dim := shape ! dim div p]))
      else Inl IndexError)"

definition get_sharded_shape_per_device :: "ShardingSpec \<Rightarrow> error + nat list" where
  "get_sharded_shape_per_device spec =
     shard_dimensions (axis_sizes (device_mesh spec)) (dim_partition_dict spec)
       (entire_shape spec)"

text \<open>
  \<^verbatim>\<open>reduce(operator.mul, sharded_shape)\<close>, without an initial value: the first element
  starts the product, and an empty sequence raises \<^verbatim>\<open>TypeError\<close>.
\<close>

fun reduce_mul :: "nat list \<Rightarrow> error + nat" where
  "reduce_mul [] = Inl TypeError"
| "reduce_mul (x # xs) = Inr (foldl (*) x xs)"

text \<open>\<^verbatim>\<open>_compute_size_in_bytes\<close>.\<close>

definition compute_size_in_bytes ::
  "StrategyGenerator_V2 \<Rightarrow> ShardingStrategy_V2 \<Rightarrow> string \<Rightarrow> error + nat" where
  "compute_size_in_bytes self strategy key =
     (case self_op_data self key of
        None \<Rightarrow> Inl (UnknownOperand key)
      | Some op_data \<Rightarrow>
          (case map_of (sharding_specs strategy) op_data of
             None \<Rightarrow> Inl (MissingLayout op_data)
           | Some spec \<Rightarrow>
               (case get_sharded_shape_per_device spec of
                  Inl e \<Rightarrow> Inl e
                | Inr sharded_shape \<Rightarrow>
                    (let size_per_elem_bytes = element_size (data_dtype op_data)
                     in case reduce_mul sharded_shape of
                          Inl e \<Rightarrow> Inl e
                        | Inr n \<Rightarrow> Inr (n * size_per_elem_bytes)))))"

section \<open>Layout invariant and sample data\<close>

text \<open>
  The number of parts a dimension is cut into: the product of the sizes of its assigned
  axes.
\<close>

definition partitions :: "nat list \<Rightarrow> nat list \<Rightarrow> nat" where
  "partitions sizes axes = prod_list (map (\<lambda>a. sizes ! a) axes)"

text \<open>
  The invariant of a layout: the partitioned dimensions are distinct keys and exist in the
  shape, every referenced axis exists in the grid, and the axis sizes are positive.
\<close>

definition valid_layout :: "ShardingSpec \<Rightarrow> bool" where
  "valid_layout spec =
     (distinct (map fst (dim_partition_dict spec)) \<and>
      list_all (\<lambda>(dim, axes). dim < length (entire_shape spec) \<and>
                  list_all (\<lambda>a. a < length (axis_sizes (device_mesh spec)) \<and>
                                 0 < axis_sizes (device_mesh spec) ! a) axes)
        (dim_partition_dict spec))"

text \<open>The forward total of the communication cost of a strategy, when it is set.\<close>

definition forward_total :: "ShardingStrategy_V2 \<Rightarrow> int option" where
  "forward_total strategy = map_option fwd (communication_cost strategy)"

text \<open>
  Sample data: four operands, one of them a scalar, a grid of 2 x 4 devices, a layout that
  shards dimension 1 of the first operand over axis 1 (per-device shape [8, 4]), three
  communication actions, a generator that knows the four operands, and strategies with a
  layout for the first two of them.
\<close>

definition operand_input :: OperationData where
  "operand_input = \<lparr>op_name = ''input'', op_type = INPUT, data_dtype = torch_float32,
                     logical_shape = [8, 16]\<rparr>"

definition operand_other :: OperationData where
  "operand_other = \<lparr>op_name = ''other'', op_type = PARAM, data_dtype = torch_float16,
                     logical_shape = [16, 4]\<rparr>"

definition operand_bias :: OperationData where
  "operand_bias = \<lparr>op_name = ''bias'', op_type = PARAM, data_dtype = torch_float32,
                    logical_shape = [16]\<rparr>"

definition operand_scalar :: OperationData where
  "operand_scalar = \<lparr>op_name = ''scale'', op_type = PARAM, data_dtype = torch_float32,
                      logical_shape = []\<rparr>"

definition mesh_2x4 :: DeviceMesh where
  "mesh_2x4 = \<lparr>axis_sizes = [2, 4]\<rparr>"

definition layout_input :: ShardingSpec where
  "layout_input = \<lparr>device_mesh = mesh_2x4, entire_shape = [8, 16],
                    dim_partition_dict = [(1, [1])]\<rparr>"

definition layout_other :: ShardingSpec where
  "layout_other = \<lparr>device_mesh = mesh_2x4, entire_shape = [16, 4],
                    dim_partition_dict = [(0, [0, 1])]\<rparr>"

definition layout_scalar :: ShardingSpec where
  "layout_scalar = \<lparr>device_mesh = mesh_2x4, entire_shape = [], dim_partition_dict = []\<rparr>"

text \<open>A dimension of size 10 over two axes whose sizes have the product 3, and the product 5.\<close>

definition ten_over_three :: ShardingSpec where
  "ten_over_three = \<lparr>device_mesh = \<lparr>axis_sizes = [3, 1]\<rparr>, entire_shape = [10],
                      dim_partition_dict = [(0, [0, 1])]\<rparr>"

definition ten_over_five :: ShardingSpec where
  "ten_over_five = \<lparr>device_mesh = \<lparr>axis_sizes = [1, 5]\<rparr>, entire_shape = [10],
                     dim_partition_dict = [(0, [0, 1])]\<rparr>"

definition action_reduce :: CommSpec where
  "action_reduce = \<lparr>comm_pattern = REDUCE_FWD_IDENTITY_BWD, sharding_spec = layout_input,
                     logical_process_axis = Axis 1\<rparr>"

definition action_allreduce :: CommSpec where
  "action_allreduce = \<lparr>comm_pattern = IDENTITY_FWD_ALLREDUCE_BWD, sharding_spec = layout_other,
                        logical_process_axis = Axis 0\<rparr>"

definition action_gather :: CommSpec where
  "action_gather = \<lparr>comm_pattern = OTHER_PATTERN ''GATHER_FWD_SPLIT_BWD'',
                     sharding_spec = layout_input, logical_process_axis = Axis 1\<rparr>"

text \<open>A communication volume: the number of elements of the layout's logical shape.\<close>

definition volume :: "CommSpec \<Rightarrow> int" where
  "volume comm_spec = int (prod_list (entire_shape (sharding_spec comm_spec)))"

definition sample_generator :: StrategyGenerator_V2 where
  "sample_generator =
     \<lparr>self_op_data = [''input'' \<mapsto> operand_input, ''other'' \<mapsto> operand_other,
                       ''bias'' \<mapsto> operand_bias, ''scale'' \<mapsto> operand_scalar],
      self_device_mesh = mesh_2x4\<rparr>"

text \<open>
  Two input mappings: dimension partitions that name an operand \<open>''mask''\<close>, which the
  generator does not know, and actions for two operands it knows.
\<close>

definition partitions_with_mask :: "(string \<times> (nat \<times> nat list) list) list" where
  "partitions_with_mask = [(''input'', [(1, [1])]), (''mask'', [])]"

definition actions_by_name :: "(string \<times> CommSpec) list" where
  "actions_by_name = [(''input'', action_reduce), (''other'', action_allreduce)]"

definition strategy_with :: "(OperationData \<times> CommSpec) list option \<Rightarrow> ShardingStrategy_V2" where
  "strategy_with actions =
     \<lparr>name = ''S0S1 = S0R x RS1'',
      sharding_specs = [(operand_input, layout_input), (operand_other, layout_other)],
      communication_actions = actions,
      compute_cost = None, communication_cost = None, memory_cost = None\<rparr>"

section \<open>Lemmas about the loops\<close>

subsection \<open>Looking operand names up\<close>

lemma to_sharding_spec_mapping_loop_unknown:
  "\<exists>k\<in>fst ` set m. self_op_data self k = None \<Longrightarrow>
   \<exists>k\<in>fst ` set m. self_op_data self k = None \<and>
     to_sharding_spec_mapping_loop self m r = Inl (UnknownOperand k)"
proof (induction m arbitrary: r)
  case Nil
  then show ?case by simp
next
  case (Cons x m)
  obtain n dp where x: "x = (n, dp)" by (cases x)
  show ?case
  proof (cases "self_op_data self n")
    case None
    then show ?thesis using x by auto
  next
    case (Some od)
    then have "\<exists>k\<in>fst ` set m. self_op_data self k = None"
      using Cons.prems x by auto
    from Cons.IH [OF this] show ?thesis using Some x by auto
  qed
qed

lemma to_sharding_spec_mapping_loop_known:
  "\<forall>k\<in>fst ` set m. self_op_data self k \<noteq> None \<Longrightarrow>
   \<exists>r'. to_sharding_spec_mapping_loop self m r = Inr r'"
proof (induction m arbitrary: r)
  case Nil
  then show ?case by simp
next
  case (Cons x m)
  obtain n dp where x: "x = (n, dp)" by (cases x)
  from Cons.prems x obtain od where od: "self_op_data self n = Some od" by auto
  have "\<forall>k\<in>fst ` set m. self_op_data self k \<noteq> None" using Cons.prems by auto
  from Cons.IH [OF this] show ?case using od x by simp
qed

lemma replace_op_name_with_op_data_loop_unknown:
  "\<exists>k\<in>fst ` set m. self_op_data self k = None \<Longrightarrow>
   \<exists>k\<in>fst ` set m. self_op_data self k = None \<and>
     replace_op_name_with_op_data_loop self m r = Inl (UnknownOperand k)"
proof (induction m arbitrary: r)
  case Nil
  then show ?case by simp
next
  case (Cons x m)
  obtain n v where x: "x = (n, v)" by (cases x)
  show ?case
  proof (cases "self_op_data self n")
    case None
    then show ?thesis using x by auto
  next
    case (Some od)
    then have "\<exists>k\<in>fst ` set m. self_op_data self k = None"
      using Cons.prems x by auto
    from Cons.IH [OF this] show ?thesis using Some x by auto
  qed
qed

lemma replace_op_name_with_op_data_loop_known:
  "\<forall>k\<in>fst ` set m. self_op_data self k \<noteq> None \<Longrightarrow>
   \<exists>r'. replace_op_name_with_op_data_loop self m r = Inr r'"
proof (induction m arbitrary: r)
  case Nil
  then show ?case by simp
next
  case (Cons x m)
  obtain n v where x: "x = (n, v)" by (cases x)
  from Cons.prems x obtain od where od: "self_op_data self n = Some od" by auto
  have "\<forall>k\<in>fst ` set m. self_op_data self k \<noteq> None" using Cons.prems by auto
  from Cons.IH [OF this] show ?case using od x by simp
qed

subsection \<open>The communication cost\<close>

text \<open>
  The first key the iteration yields is an operand, which cannot be unpacked: a mapping
  with at least one action never reaches the body of the loop.
\<close>

lemma communication_actions_loop_keys:
  "communication_actions_loop get_comm_cost (dict_iter (kv # actions)) comm_cost = Inl TypeError"
  by (simp add: dict_iter_def)

lemma update_communication_cost_nonempty:
  "communication_actions strategy = Some (kv # actions) \<Longrightarrow>
   update_communication_cost get_comm_cost strategy = (Some TypeError, strategy)"
  by (simp add: update_communication_cost_def communication_actions_loop_keys)

lemma update_communication_cost_empty:
  "communication_actions strategy = Some [] \<Longrightarrow>
   update_communication_cost get_comm_cost strategy =
     (None, strategy\<lparr>communication_cost := Some \<lparr>fwd = 0, bwd = 0\<rparr>\<rparr>)"
  by (simp add: update_communication_cost_def dict_iter_def)

text \<open>
  The body of the loop, on an operand and an action: a supported pattern adds the volume
  times the element size to the forward total, any other pattern is refused.
\<close>

lemma compute_and_add_supported:
  "comm_pattern cs = REDUCE_FWD_IDENTITY_BWD \<or> comm_pattern cs = IDENTITY_FWD_ALLREDUCE_BWD \<Longrightarrow>
   compute_and_add get_comm_cost (Obj_OperationData od) (Obj_CommSpec cs) comm_cost =
     Inr \<lparr>fwd = fwd comm_cost + int (element_size (data_dtype od)) * get_comm_cost cs,
          bwd = bwd comm_cost\<rparr>"
  by (auto simp: compute_and_add_def Let_def)

lemma compute_and_add_unsupported:
  "comm_pattern cs = OTHER_PATTERN n \<Longrightarrow>
   compute_and_add get_comm_cost (Obj_OperationData od) (Obj_CommSpec cs) comm_cost =
     Inl (UnsupportedCommPattern (OTHER_PATTERN n))"
  by (simp add: compute_and_add_def Let_def)

subsection \<open>The per-device shape\<close>

lemma axes_product_partitions:
  "\<forall>a\<in>set axes. a < length sizes \<Longrightarrow> axes_product sizes axes = Inr (partitions sizes axes)"
  by (induction axes) (simp_all add: partitions_def)

lemma partitions_pos:
  "\<forall>a\<in>set axes. 0 < sizes ! a \<Longrightarrow> 0 < partitions sizes axes"
  by (induction axes) (simp_all add: partitions_def)

lemma shard_dimensions_not_divisible:
  assumes "\<forall>(dim, axes)\<in>set d. dim < length shape \<and> (\<forall>a\<in>set axes. a < length sizes \<and> 0 < sizes ! a)"
    and "distinct (map fst d)"
    and "\<exists>(dim, axes)\<in>set d. shape ! dim mod partitions sizes axes \<noteq> 0"
  shows "shard_dimensions sizes d shape = Inl NonDivisibleShard"
  using assms
proof (induction d arbitrary: shape)
  case Nil
  then show ?case by simp
next
  case (Cons x d)
  obtain dim axes where x: "x = (dim, axes)" by (cases x)
  from Cons.prems(1) x have dim: "dim < length shape"
    and ax: "\<forall>a\<in>set axes. a < length sizes" and pos: "\<forall>a\<in>set axes. 0 < sizes ! a"
    by auto
  have p: "axes_product sizes axes = Inr (partitions sizes axes)"
    using ax by (rule axes_product_partitions)
  have p0: "partitions sizes axes \<noteq> 0" using partitions_pos [OF pos] by simp
  show ?case
  proof (cases "shape ! dim mod partitions sizes axes = 0")
    case False
    then show ?thesis using x dim p p0 by simp
  next
    case True
    let ?shape = "shape[dim := shape ! dim div partitions sizes axes]"
    have notin: "dim \<notin> fst ` set d" using Cons.prems(2) x by simp
    have same: "\<And>k v. (k, v) \<in> set d \<Longrightarrow> ?shape ! k = shape ! k"
      using notin by (metis fst_conv image_eqI nth_list_update_neq)
    have 1: "\<forall>(dim, axes)\<in>set d. dim < length ?shape \<and> (\<forall>a\<in>set axes. a < length sizes \<and> 0 < sizes ! a)"
      using Cons.prems(1) by auto
    have 2: "distinct (map fst d)" using Cons.prems(2) by simp
    from Cons.prems(3) obtain k v where kv: "(k, v) \<in> set (x # d)"
      and bad: "shape ! k mod partitions sizes v \<noteq> 0"
      by blast
    have "(k, v) \<noteq> x" using bad True x by auto
    then have kd: "(k, v) \<in> set d" using kv by simp
    then have "?shape ! k mod partitions sizes v \<noteq> 0" using bad same by simp
    then have 3: "\<exists>(dim, axes)\<in>set d. ?shape ! dim mod partitions sizes axes \<noteq> 0"
      using kd by blast
    have "shard_dimensions sizes d ?shape = Inl NonDivisibleShard"
      using Cons.IH [OF 1 2 3] .
    then show ?thesis using x dim p p0 True by simp
  qed
qed

lemma shard_dimensions_divisible:
  assumes "\<forall>(dim, axes)\<in>set d. dim < length shape \<and> (\<forall>a\<in>set axes. a < length sizes \<and> 0 < sizes ! a)"
    and "distinct (map fst d)"
    and "\<forall>(dim, axes)\<in>set d. shape ! dim mod partitions sizes axes = 0"
  shows "\<exists>shape'. shard_dimensions sizes d shape = Inr shape' \<and> length shape' = length shape \<and>
           (\<forall>(dim, axes)\<in>set d. shape' ! dim * partitions sizes axes = shape ! dim) \<and>
           (\<forall>i. i \<notin> fst ` set d \<longrightarrow> shape' ! i = shape ! i)"
  using assms
proof (induction d arbitrary: shape)
  case Nil
  then show ?case by simp
next
  case (Cons x d)
  obtain dim axes where x: "x = (dim, axes)" by (cases x)
  from Cons.prems(1) x have dim: "dim < length shape"
    and ax: "\<forall>a\<in>set axes. a < length sizes" and pos: "\<forall>a\<in>set axes. 0 < sizes ! a"
    by auto
  have p: "axes_product sizes axes = Inr (partitions sizes axes)"
    using ax by (rule axes_product_partitions)
  have p0: "partitions sizes axes \<noteq> 0" using partitions_pos [OF pos] by simp
  have dv: "shape ! dim mod partitions sizes axes = 0" using Cons.prems(3) x by simp
  let ?shape = "shape[dim := shape ! dim div partitions sizes axes]"
  have notin: "dim \<notin> fst ` set d" using Cons.prems(2) x by simp
  have same: "\<And>k v. (k, v) \<in> set d \<Longrightarrow> ?shape ! k = shape ! k"
    using notin by (metis fst_conv image_eqI nth_list_update_neq)
  have 1: "\<forall>(dim, axes)\<in>set d. dim < length ?shape \<and> (\<forall>a\<in>set axes. a < length sizes \<and> 0 < sizes ! a)"
    using Cons.prems(1) by auto
  have 2: "distinct (map fst d)" using Cons.prems(2) by simp
  have 3: "\<forall>(dim, axes)\<in>set d. ?shape ! dim mod partitions sizes axes = 0"
    using Cons.prems(3) same by auto
  from Cons.IH [OF 1 2 3] obtain shape' where
    r: "shard_dimensions sizes d ?shape = Inr shape'" and len: "length shape' = length ?shape"
    and part: "\<forall>(dim, axes)\<in>set d. shape' ! dim * partitions sizes axes = ?shape ! dim"
    and rest: "\<forall>i. i \<notin> fst ` set d \<longrightarrow> shape' ! i = ?shape ! i"
    by blast
  have run: "shard_dimensions sizes (x # d) shape = Inr shape'"
    using x dim p p0 dv r by simp
  have "shape' ! dim = shape ! dim div partitions sizes axes"
    using rest notin dim by simp
  then have here: "shape' ! dim * partitions sizes axes = shape ! dim"
    using dv by (simp add: mod_eq_0_iff_dvd)
  have others: "\<forall>(k, v)\<in>set d. shape' ! k * partitions sizes v = shape ! k"
    using part same by auto
  have untouched: "\<forall>i. i \<notin> fst ` set (x # d) \<longrightarrow> shape' ! i = shape ! i"
    using rest x by auto
  show ?case using run len here others untouched x by auto
qed

lemma foldl_mult_prod_list: "foldl (*) (x::nat) xs = x * prod_list xs"
  by (induction xs arbitrary: x) (simp_all add: mult.assoc)

lemma reduce_mul_nonempty: "shape \<noteq> [] \<Longrightarrow> reduce_mul shape = Inr (prod_list shape)"
  by (cases shape) (simp_all add: foldl_mult_prod_list)

section \<open>The claims\<close>

subsection \<open>Communication cost\<close>

text \<open>
  Claim C1. For a strategy whose action mapping is present, every action is priced at its
  volume times the element size of its operand and added to the forward total. The code
  does not get that far: with one action of pattern \<open>REDUCE_FWD_IDENTITY_BWD\<close> in the
  mapping the call raises \<^verbatim>\<open>TypeError\<close> and sets no cost, although the body of the loop,
  given the operand and its action, prices it at 128 elements of 4 bytes.
\<close>

theorem update_communication_cost_one_action:
  "update_communication_cost volume (strategy_with (Some [(operand_input, action_reduce)])) =
     (Some TypeError, strategy_with (Some [(operand_input, action_reduce)])) \<and>
   communication_cost (strategy_with (Some [(operand_input, action_reduce)])) = None \<and>
   compute_and_add volume (Obj_OperationData operand_input) (Obj_CommSpec action_reduce)
     \<lparr>fwd = 0, bwd = 0\<rparr> = Inr \<lparr>fwd = 512, bwd = 0\<rparr>"
proof -
  have "communication_actions (strategy_with (Some [(operand_input, action_reduce)])) =
          Some [(operand_input, action_reduce)]"
    by (simp add: strategy_with_def)
  then have raised:
    "update_communication_cost volume (strategy_with (Some [(operand_input, action_reduce)])) =
       (Some TypeError, strategy_with (Some [(operand_input, action_reduce)]))"
    by (rule update_communication_cost_nonempty)
  have unset: "communication_cost (strategy_with (Some [(operand_input, action_reduce)])) = None"
    by (simp add: strategy_with_def)
  have "comm_pattern action_reduce = REDUCE_FWD_IDENTITY_BWD"
    by (simp add: action_reduce_def)
  then have body:
    "compute_and_add volume (Obj_OperationData operand_input) (Obj_CommSpec action_reduce)
       \<lparr>fwd = 0, bwd = 0\<rparr> = Inr \<lparr>fwd = 512, bwd = 0\<rparr>"
    by (simp add: compute_and_add_supported volume_def action_reduce_def layout_input_def
        operand_input_def)
  from raised unset body show ?thesis by simp
qed

text \<open>
  Claim C2. With two actions of forward-contributing patterns the forward cost is the sum
  of the costs of each action alone, in either order. The code raises \<^verbatim>\<open>TypeError\<close>
  for the two actions in either order and for each action alone, so no forward cost is
  produced to be added.
\<close>

theorem update_communication_cost_two_actions:
  "update_communication_cost volume
     (strategy_with (Some [(operand_input, action_reduce), (operand_other, action_allreduce)])) =
     (Some TypeError,
      strategy_with (Some [(operand_input, action_reduce), (operand_other, action_allreduce)])) \<and>
   update_communication_cost volume
     (strategy_with (Some [(operand_other, action_allreduce), (operand_input, action_reduce)])) =
     (Some TypeError,
      strategy_with (Some [(operand_other, action_allreduce), (operand_input, action_reduce)])) \<and>
   update_communication_cost volume (strategy_with (Some [(operand_other, action_allreduce)])) =
     (Some TypeError, strategy_with (Some [(operand_other, action_allreduce)]))"
  by (simp add: update_communication_cost_nonempty strategy_with_def)

text \<open>
  Claim C3. An action whose pattern is neither \<open>REDUCE_FWD_IDENTITY_BWD\<close> nor
  \<open>IDENTITY_FWD_ALLREDUCE_BWD\<close> makes the call fail with \<open>UnsupportedCommPattern\<close> and
  leaves the communication cost as it was. The code leaves the cost as it was, but the
  exception is the \<^verbatim>\<open>TypeError\<close> of the unpacking: the test of the pattern, which
  would refuse this action, is not reached.
\<close>

theorem update_communication_cost_unknown_pattern:
  "update_communication_cost volume (strategy_with (Some [(operand_input, action_gather)])) =
     (Some TypeError, strategy_with (Some [(operand_input, action_gather)])) \<and>
   compute_and_add volume (Obj_OperationData operand_input) (Obj_CommSpec action_gather)
     \<lparr>fwd = 0, bwd = 0\<rparr> =
     Inl (UnsupportedCommPattern (OTHER_PATTERN ''GATHER_FWD_SPLIT_BWD''))"
  by (simp add: update_communication_cost_nonempty strategy_with_def
      compute_and_add_unsupported action_gather_def)

text \<open>
  Claim C7, as stated: for a strategy with a non-empty mapping of supported patterns and
  a non-zero cost per action, the forward total after two calls in a row is double the
  total of one call, because a call adds to the cost the strategy already has. It is not.
  On a strategy with one action of a supported pattern, which the body of the loop prices
  at 512, one call produces no forward total and two calls produce none, so none that is
  the double of 512. And a call does not add to the cost it finds: on a strategy that
  carries a forward total of 512 and has no action, a mapping absent or empty, the call
  leaves the forward total 0, not 512.
\<close>

theorem update_communication_cost_twice_counterexample:
  "compute_and_add volume (Obj_OperationData operand_input) (Obj_CommSpec action_reduce)
     \<lparr>fwd = 0, bwd = 0\<rparr> = Inr \<lparr>fwd = 512, bwd = 0\<rparr> \<and>
   forward_total (snd (update_communication_cost volume
     (strategy_with (Some [(operand_input, action_reduce)])))) = None \<and>
   forward_total (snd (update_communication_cost volume
     (snd (update_communication_cost volume
       (strategy_with (Some [(operand_input, action_reduce)])))))) \<noteq> Some (2 * 512) \<and>
   forward_total (snd (update_communication_cost volume
     ((strategy_with None)\<lparr>communication_cost := Some \<lparr>fwd = 512, bwd = 0\<rparr>\<rparr>))) = Some 0 \<and>
   forward_total (snd (update_communication_cost volume
     ((strategy_with (Some []))\<lparr>communication_cost := Some \<lparr>fwd = 512, bwd = 0\<rparr>\<rparr>))) = Some 0"
proof -
  have "comm_pattern action_reduce = REDUCE_FWD_IDENTITY_BWD"
    by (simp add: action_reduce_def)
  then have body:
    "compute_and_add volume (Obj_OperationData operand_input) (Obj_CommSpec action_reduce)
       \<lparr>fwd = 0, bwd = 0\<rparr> = Inr \<lparr>fwd = 512, bwd = 0\<rparr>"
    by (simp add: compute_and_add_supported volume_def action_reduce_def layout_input_def
        operand_input_def)
  have once: "forward_total (snd (update_communication_cost volume
      (strategy_with (Some [(operand_input, action_reduce)])))) = None"
    by (simp add: update_communication_cost_nonempty strategy_with_def forward_total_def)
  have twice: "forward_total (snd (update_communication_cost volume
      (snd (update_communication_cost volume
        (strategy_with (Some [(operand_input, action_reduce)])))))) \<noteq> Some (2 * 512)"
    by (simp add: update_communication_cost_nonempty strategy_with_def forward_total_def)
  have absent: "forward_total (snd (update_communication_cost volume
      ((strategy_with None)\<lparr>communication_cost := Some \<lparr>fwd = 512, bwd = 0\<rparr>\<rparr>))) = Some 0"
    by (simp add: update_communication_cost_def strategy_with_def forward_total_def)
  have empty: "forward_total (snd (update_communication_cost volume
      ((strategy_with (Some []))\<lparr>communication_cost := Some \<lparr>fwd = 512, bwd = 0\<rparr>\<rparr>))) = Some 0"
    by (simp add: update_communication_cost_empty strategy_with_def forward_total_def)
  show ?thesis
    by (rule conjI [OF body conjI [OF once conjI [OF twice conjI [OF absent empty]]]])
qed

text \<open>
  Claim C7, amended: a call never adds to the communication cost the strategy already
  has. Whether the call raises does not depend on that cost; a call that returns leaves
  the same strategy whatever the cost was before, and a call that raises leaves the
  strategy as it was; with no action, a mapping absent or empty, the cost after the call
  is zero whatever it was before. So every call starts from a fresh zero accumulator and
  overwrites the field, a second call in a row ends as the first did and leaves the
  strategy as the first call left it, nothing is counted twice and no reset is needed.
\<close>

theorem update_communication_cost_twice:
  "update_communication_cost get_comm_cost
     (snd (update_communication_cost get_comm_cost strategy)) =
     update_communication_cost get_comm_cost strategy \<and>
   fst (update_communication_cost get_comm_cost (strategy\<lparr>communication_cost := c\<rparr>)) =
     fst (update_communication_cost get_comm_cost strategy) \<and>
   snd (update_communication_cost get_comm_cost (strategy\<lparr>communication_cost := c\<rparr>)) =
     (case fst (update_communication_cost get_comm_cost strategy) of
        None \<Rightarrow> snd (update_communication_cost get_comm_cost strategy)
      | Some e \<Rightarrow> strategy\<lparr>communication_cost := c\<rparr>) \<and>
   communication_cost (snd (update_communication_cost get_comm_cost
     (strategy\<lparr>communication_actions := None, communication_cost := c\<rparr>))) =
     Some \<lparr>fwd = 0, bwd = 0\<rparr> \<and>
   communication_cost (snd (update_communication_cost get_comm_cost
     (strategy\<lparr>communication_actions := Some [], communication_cost := c\<rparr>))) =
     Some \<lparr>fwd = 0, bwd = 0\<rparr>"
  by (simp add: update_communication_cost_def Let_def dict_iter_def
      split: option.splits sum.splits)

text \<open>
  Claim C8. The call changes nothing of the strategy but its communication cost: the name,
  the layouts, the actions, the compute cost and the memory cost are as before. Writing
  the compute cost or the memory cost before the call or after it gives the same strategy
  and the same outcome, so the phases may run in any order.
\<close>

theorem update_communication_cost_frame:
  "name (snd (update_communication_cost get_comm_cost strategy)) = name strategy \<and>
   sharding_specs (snd (update_communication_cost get_comm_cost strategy)) =
     sharding_specs strategy \<and>
   communication_actions (snd (update_communication_cost get_comm_cost strategy)) =
     communication_actions strategy \<and>
   compute_cost (snd (update_communication_cost get_comm_cost strategy)) =
     compute_cost strategy \<and>
   memory_cost (snd (update_communication_cost get_comm_cost strategy)) =
     memory_cost strategy \<and>
   (snd (update_communication_cost get_comm_cost strategy))
     \<lparr>communication_cost := communication_cost strategy\<rparr> = strategy \<and>
   update_communication_cost get_comm_cost (strategy\<lparr>compute_cost := c\<rparr>) =
     (fst (update_communication_cost get_comm_cost strategy),
      (snd (update_communication_cost get_comm_cost strategy))\<lparr>compute_cost := c\<rparr>) \<and>
   update_communication_cost get_comm_cost (strategy\<lparr>memory_cost := m\<rparr>) =
     (fst (update_communication_cost get_comm_cost strategy),
      (snd (update_communication_cost get_comm_cost strategy))\<lparr>memory_cost := m\<rparr>)"
  by (simp add: update_communication_cost_def Let_def split: option.splits sum.splits)

text \<open>
  Claim C10. When the action mapping is absent, the call raises nothing and sets the
  communication cost of the strategy to the zero cost, forward 0 and backward 0.
\<close>

theorem update_communication_cost_no_actions:
  "communication_actions strategy = None \<Longrightarrow>
   update_communication_cost get_comm_cost strategy =
     (None, strategy\<lparr>communication_cost := Some \<lparr>fwd = 0, bwd = 0\<rparr>\<rparr>)"
  by (simp add: update_communication_cost_def)

theorem update_communication_cost_no_actions_witness:
  "communication_actions (strategy_with None) = None \<and>
   update_communication_cost volume (strategy_with None) =
     (None, (strategy_with None)\<lparr>communication_cost := Some \<lparr>fwd = 0, bwd = 0\<rparr>\<rparr>)"
proof -
  have h: "communication_actions (strategy_with None) = None"
    by (simp add: strategy_with_def)
  from h update_communication_cost_no_actions [OF h, of volume] show ?thesis
    by (rule conjI)
qed

subsection \<open>The communication-spec factory\<close>

text \<open>
  Claim C4. For a request over a list of two grid axes the factory replaces the device
  grid of the sharding spec by its flattened form, a grid with the single axis whose size
  is the product of all axis sizes (the axes 4 and 8 become one axis of size 32), and
  records axis 0. For a single axis, given as a number or as a list of one, the grid is
  left as it is and the axis is recorded as given.
\<close>

theorem get_communication_spec_flatten:
  "get_communication_spec spec pattern (AxisList [a, b]) =
     (spec\<lparr>device_mesh := flatten (device_mesh spec)\<rparr>,
      \<lparr>comm_pattern = pattern,
       sharding_spec = spec\<lparr>device_mesh := flatten (device_mesh spec)\<rparr>,
       logical_process_axis = Axis 0\<rparr>) \<and>
   axis_sizes (flatten (device_mesh spec)) = [prod_list (axis_sizes (device_mesh spec))] \<and>
   axis_sizes (flatten \<lparr>axis_sizes = [4, 8]\<rparr>) = [32] \<and>
   get_communication_spec spec pattern (Axis a) =
     (spec, \<lparr>comm_pattern = pattern, sharding_spec = spec, logical_process_axis = Axis a\<rparr>) \<and>
   get_communication_spec spec pattern (AxisList [a]) =
     (spec, \<lparr>comm_pattern = pattern, sharding_spec = spec,
             logical_process_axis = AxisList [a]\<rparr>)"
  by (simp add: flatten_def Let_def)

subsection \<open>Operand names\<close>

text \<open>
  Claim C6. Layout construction and the rekeying of strategy assembly fail with
  \<open>UnknownOperand\<close> when the input mapping has a name that is absent from the operand
  mapping of the generator, and succeed when every name is present. So does strategy
  assembly as a whole, over the names of both of its mappings.
\<close>

theorem unknown_operand:
  "((\<exists>k\<in>fst ` set layouts. self_op_data self k = None) \<longrightarrow>
      (\<exists>k\<in>fst ` set layouts. self_op_data self k = None \<and>
         to_sharding_spec_mapping self layouts = Inl (UnknownOperand k))) \<and>
   ((\<forall>k\<in>fst ` set layouts. self_op_data self k \<noteq> None) \<longrightarrow>
      (\<exists>r. to_sharding_spec_mapping self layouts = Inr r)) \<and>
   ((\<exists>k\<in>fst ` set mapping. self_op_data self k = None) \<longrightarrow>
      (\<exists>k\<in>fst ` set mapping. self_op_data self k = None \<and>
         replace_op_name_with_op_data self mapping = Inl (UnknownOperand k))) \<and>
   ((\<forall>k\<in>fst ` set mapping. self_op_data self k \<noteq> None) \<longrightarrow>
      (\<exists>r. replace_op_name_with_op_data self mapping = Inr r)) \<and>
   ((\<exists>k\<in>fst ` set specs \<union> fst ` set actions. self_op_data self k = None) \<longrightarrow>
      (\<exists>k\<in>fst ` set specs \<union> fst ` set actions. self_op_data self k = None \<and>
         get_sharding_strategy self nm specs actions = Inl (UnknownOperand k))) \<and>
   ((\<forall>k\<in>fst ` set specs \<union> fst ` set actions. self_op_data self k \<noteq> None) \<longrightarrow>
      (\<exists>r. get_sharding_strategy self nm specs actions = Inr r))"
proof (intro conjI impI)
  assume "\<exists>k\<in>fst ` set layouts. self_op_data self k = None"
  then show "\<exists>k\<in>fst ` set layouts. self_op_data self k = None \<and>
      to_sharding_spec_mapping self layouts = Inl (UnknownOperand k)"
    unfolding to_sharding_spec_mapping_def by (rule to_sharding_spec_mapping_loop_unknown)
next
  assume "\<forall>k\<in>fst ` set layouts. self_op_data self k \<noteq> None"
  then show "\<exists>r. to_sharding_spec_mapping self layouts = Inr r"
    unfolding to_sharding_spec_mapping_def by (rule to_sharding_spec_mapping_loop_known)
next
  assume "\<exists>k\<in>fst ` set mapping. self_op_data self k = None"
  then show "\<exists>k\<in>fst ` set mapping. self_op_data self k = None \<and>
      replace_op_name_with_op_data self mapping = Inl (UnknownOperand k)"
    unfolding replace_op_name_with_op_data_def by (rule replace_op_name_with_op_data_loop_unknown)
next
  assume "\<forall>k\<in>fst ` set mapping. self_op_data self k \<noteq> None"
  then show "\<exists>r. replace_op_name_with_op_data self mapping = Inr r"
    unfolding replace_op_name_with_op_data_def by (rule replace_op_name_with_op_data_loop_known)
next
  assume bad: "\<exists>k\<in>fst ` set specs \<union> fst ` set actions. self_op_data self k = None"
  show "\<exists>k\<in>fst ` set specs \<union> fst ` set actions. self_op_data self k = None \<and>
      get_sharding_strategy self nm specs actions = Inl (UnknownOperand k)"
  proof (cases "\<exists>k\<in>fst ` set specs. self_op_data self k = None")
    case True
    from replace_op_name_with_op_data_loop_unknown [OF True, of "[]"]
    show ?thesis
      by (auto simp: get_sharding_strategy_def replace_op_name_with_op_data_def)
  next
    case False
    then have "\<forall>k\<in>fst ` set specs. self_op_data self k \<noteq> None" by simp
    from replace_op_name_with_op_data_loop_known [OF this, of "[]"]
    obtain r where r: "replace_op_name_with_op_data self specs = Inr r"
      by (auto simp: replace_op_name_with_op_data_def)
    from False bad have "\<exists>k\<in>fst ` set actions. self_op_data self k = None" by blast
    from replace_op_name_with_op_data_loop_unknown [OF this, of "[]"] r
    show ?thesis
      by (auto simp: get_sharding_strategy_def replace_op_name_with_op_data_def)
  qed
next
  assume ok: "\<forall>k\<in>fst ` set specs \<union> fst ` set actions. self_op_data self k \<noteq> None"
  then have "\<forall>k\<in>fst ` set specs. self_op_data self k \<noteq> None" by blast
  from replace_op_name_with_op_data_loop_known [OF this, of "[]"]
  obtain r where r: "replace_op_name_with_op_data self specs = Inr r"
    by (auto simp: replace_op_name_with_op_data_def)
  from ok have "\<forall>k\<in>fst ` set actions. self_op_data self k \<noteq> None" by blast
  from replace_op_name_with_op_data_loop_known [OF this, of "[]"]
  obtain r' where r': "replace_op_name_with_op_data self actions = Inr r'"
    by (auto simp: replace_op_name_with_op_data_def)
  show "\<exists>r. get_sharding_strategy self nm specs actions = Inr r"
    using r r' by (simp add: get_sharding_strategy_def)
qed

theorem unknown_operand_witness:
  "self_op_data sample_generator ''mask'' = None \<and>
   to_sharding_spec_mapping sample_generator partitions_with_mask =
     Inl (UnknownOperand ''mask'') \<and>
   self_op_data sample_generator ''input'' = Some operand_input \<and>
   self_op_data sample_generator ''other'' = Some operand_other \<and>
   (\<exists>r. replace_op_name_with_op_data sample_generator actions_by_name = Inr r)"
proof -
  have mask: "self_op_data sample_generator ''mask'' = None"
    by (simp add: sample_generator_def)
  have input: "self_op_data sample_generator ''input'' = Some operand_input"
    by (simp add: sample_generator_def)
  have other: "self_op_data sample_generator ''other'' = Some operand_other"
    by (simp add: sample_generator_def)
  have names: "fst ` set partitions_with_mask = {''input'', ''mask''}"
    by (simp add: partitions_with_mask_def)
  have "''mask'' \<in> fst ` set partitions_with_mask"
    unfolding names by simp
  with mask have absent:
    "\<exists>k\<in>fst ` set partitions_with_mask. self_op_data sample_generator k = None"
    by (rule bexI)
  have present: "\<forall>k\<in>fst ` set actions_by_name. self_op_data sample_generator k \<noteq> None"
    using input other by (simp add: actions_by_name_def)
  note inst = unknown_operand [of partitions_with_mask sample_generator actions_by_name
      "[]" "[]" "''s''"]
  from inst [THEN conjunct1, THEN mp, OF absent] obtain k where
    k: "k \<in> fst ` set partitions_with_mask" "self_op_data sample_generator k = None"
    and r: "to_sharding_spec_mapping sample_generator partitions_with_mask =
      Inl (UnknownOperand k)"
    by (elim bexE conjE)
  from k(1) have "k = ''input'' \<or> k = ''mask''"
    unfolding names by simp
  then have "k = ''mask''"
  proof (elim disjE)
    assume "k = ''input''"
    with k(2) input show ?thesis by simp
  next
    assume "k = ''mask''"
    then show ?thesis .
  qed
  with r have fails: "to_sharding_spec_mapping sample_generator partitions_with_mask =
      Inl (UnknownOperand ''mask'')"
    by simp
  note succeeds = inst [THEN conjunct2, THEN conjunct2, THEN conjunct2, THEN conjunct1,
      THEN mp, OF present]
  show ?thesis
    by (rule conjI [OF mask conjI [OF fails conjI [OF input conjI [OF other succeeds]]]])
qed

subsection \<open>The per-device shape and the size in bytes\<close>

text \<open>
  Claim C9. For a layout that keeps its invariant, the per-device shape divides each
  partitioned dimension by the product of the sizes of its assigned axes. When some
  partitioned dimension does not divide evenly the derivation fails with
  \<open>NonDivisibleShard\<close>, and so does the size helper for an operand with that layout;
  otherwise it succeeds, each partitioned dimension times its number of parts is the
  logical dimension (nothing is rounded), and the other dimensions are unchanged.
\<close>

theorem sharded_shape_even_division:
  assumes "valid_layout spec"
  shows
    "((\<exists>(dim, axes)\<in>set (dim_partition_dict spec).
         entire_shape spec ! dim mod partitions (axis_sizes (device_mesh spec)) axes \<noteq> 0) \<longrightarrow>
        get_sharded_shape_per_device spec = Inl NonDivisibleShard \<and>
        (\<forall>self strategy key op_data.
           self_op_data self key = Some op_data \<and>
           map_of (sharding_specs strategy) op_data = Some spec \<longrightarrow>
           compute_size_in_bytes self strategy key = Inl NonDivisibleShard)) \<and>
     ((\<forall>(dim, axes)\<in>set (dim_partition_dict spec).
         entire_shape spec ! dim mod partitions (axis_sizes (device_mesh spec)) axes = 0) \<longrightarrow>
        (\<exists>shape. get_sharded_shape_per_device spec = Inr shape \<and>
           length shape = length (entire_shape spec) \<and>
           (\<forall>(dim, axes)\<in>set (dim_partition_dict spec).
              shape ! dim * partitions (axis_sizes (device_mesh spec)) axes =
                entire_shape spec ! dim) \<and>
           (\<forall>i. i \<notin> fst ` set (dim_partition_dict spec) \<longrightarrow>
              shape ! i = entire_shape spec ! i)))"
proof -
  from assms have keys: "distinct (map fst (dim_partition_dict spec))"
    by (simp add: valid_layout_def)
  from assms have inv:
    "\<forall>(dim, axes)\<in>set (dim_partition_dict spec). dim < length (entire_shape spec) \<and>
       (\<forall>a\<in>set axes. a < length (axis_sizes (device_mesh spec)) \<and>
          0 < axis_sizes (device_mesh spec) ! a)"
    by (auto simp: valid_layout_def list_all_iff)
  show ?thesis
  proof (intro conjI impI)
    assume "\<exists>(dim, axes)\<in>set (dim_partition_dict spec).
      entire_shape spec ! dim mod partitions (axis_sizes (device_mesh spec)) axes \<noteq> 0"
    from shard_dimensions_not_divisible [OF inv keys this]
    show "get_sharded_shape_per_device spec = Inl NonDivisibleShard"
      by (simp add: get_sharded_shape_per_device_def)
    then show "\<forall>self strategy key op_data.
      self_op_data self key = Some op_data \<and>
      map_of (sharding_specs strategy) op_data = Some spec \<longrightarrow>
      compute_size_in_bytes self strategy key = Inl NonDivisibleShard"
      by (simp add: compute_size_in_bytes_def)
  next
    assume "\<forall>(dim, axes)\<in>set (dim_partition_dict spec).
      entire_shape spec ! dim mod partitions (axis_sizes (device_mesh spec)) axes = 0"
    from shard_dimensions_divisible [OF inv keys this]
    show "\<exists>shape. get_sharded_shape_per_device spec = Inr shape \<and>
      length shape = length (entire_shape spec) \<and>
      (\<forall>(dim, axes)\<in>set (dim_partition_dict spec).
         shape ! dim * partitions (axis_sizes (device_mesh spec)) axes =
           entire_shape spec ! dim) \<and>
      (\<forall>i. i \<notin> fst ` set (dim_partition_dict spec) \<longrightarrow>
         shape ! i = entire_shape spec ! i)"
      by (simp add: get_sharded_shape_per_device_def)
  qed
qed

theorem sharded_shape_even_division_witness:
  "valid_layout ten_over_three \<and>
   partitions (axis_sizes (device_mesh ten_over_three)) [0, 1] = 3 \<and>
   get_sharded_shape_per_device ten_over_three = Inl NonDivisibleShard \<and>
   valid_layout ten_over_five \<and>
   partitions (axis_sizes (device_mesh ten_over_five)) [0, 1] = 5 \<and>
   get_sharded_shape_per_device ten_over_five = Inr [2]"
proof -
  have v3: "valid_layout ten_over_three"
    by (simp add: valid_layout_def ten_over_three_def nth_Cons')
  have p3: "partitions (axis_sizes (device_mesh ten_over_three)) [0, 1] = 3"
    by (simp add: partitions_def ten_over_three_def)
  have "\<exists>(dim, axes)\<in>set (dim_partition_dict ten_over_three).
      entire_shape ten_over_three ! dim mod
        partitions (axis_sizes (device_mesh ten_over_three)) axes \<noteq> 0"
    by (simp add: partitions_def ten_over_three_def)
  with sharded_shape_even_division [OF v3]
  have r3: "get_sharded_shape_per_device ten_over_three = Inl NonDivisibleShard"
    by blast
  have v5: "valid_layout ten_over_five"
    by (simp add: valid_layout_def ten_over_five_def nth_Cons')
  have p5: "partitions (axis_sizes (device_mesh ten_over_five)) [0, 1] = 5"
    by (simp add: partitions_def ten_over_five_def)
  have "\<forall>(dim, axes)\<in>set (dim_partition_dict ten_over_five).
      entire_shape ten_over_five ! dim mod
        partitions (axis_sizes (device_mesh ten_over_five)) axes = 0"
    by (simp add: partitions_def ten_over_five_def)
  with sharded_shape_even_division [OF v5]
  obtain shape where r: "get_sharded_shape_per_device ten_over_five = Inr shape"
    and len: "length shape = length (entire_shape ten_over_five)"
    and exact: "\<forall>(dim, axes)\<in>set (dim_partition_dict ten_over_five).
      shape ! dim * partitions (axis_sizes (device_mesh ten_over_five)) axes =
        entire_shape ten_over_five ! dim"
    by blast
  from exact have "shape ! 0 * 5 = 10"
    by (simp add: partitions_def ten_over_five_def)
  then have "shape ! 0 = 2" by simp
  moreover from len have "length shape = 1" by (simp add: ten_over_five_def)
  ultimately have "shape = [2]"
    by (cases shape) simp_all
  with r have r5: "get_sharded_shape_per_device ten_over_five = Inr [2]" by simp
  show ?thesis
    by (rule conjI [OF v3 conjI [OF p3 conjI [OF r3 conjI [OF v5 conjI [OF p5 r5]]]]])
qed

text \<open>
  Claim C5, as stated: for every strategy and every operand name of the generator the
  size helper returns the size in bytes. It does not when the strategy has no layout for
  the operand: the generator knows \<open>''bias''\<close>, the strategy has layouts for
  \<open>''input''\<close> and \<open>''other''\<close> only, and the helper raises the \<^verbatim>\<open>KeyError\<close> of
  \<^verbatim>\<open>strategy.sharding_specs[op_data]\<close>.
\<close>

theorem compute_size_in_bytes_counterexample:
  "self_op_data sample_generator ''bias'' = Some operand_bias \<and>
   compute_size_in_bytes sample_generator (strategy_with None) ''bias'' =
     Inl (MissingLayout operand_bias)"
  by (simp add: compute_size_in_bytes_def sample_generator_def strategy_with_def
      operand_bias_def operand_input_def operand_other_def)

text \<open>
  Claim C5, amended: for an operand name of the generator, the size helper fails when the
  strategy has no layout for the operand; when it has one whose per-device shape exists
  and has at least one dimension, the helper returns the product of the dimensions of
  that shape times the element size of the operand (for the per-device shape [8, 4] and
  an element of 4 bytes, 128).
\<close>

theorem compute_size_in_bytes_product:
  assumes "self_op_data self key = Some op_data"
  shows
    "(map_of (sharding_specs strategy) op_data = None \<longrightarrow>
        compute_size_in_bytes self strategy key = Inl (MissingLayout op_data)) \<and>
     (\<forall>spec shape.
        map_of (sharding_specs strategy) op_data = Some spec \<and>
        get_sharded_shape_per_device spec = Inr shape \<and> shape \<noteq> [] \<longrightarrow>
        compute_size_in_bytes self strategy key =
          Inr (prod_list shape * element_size (data_dtype op_data)))"
  using assms by (simp add: compute_size_in_bytes_def reduce_mul_nonempty)

theorem compute_size_in_bytes_product_witness:
  "self_op_data sample_generator ''input'' = Some operand_input \<and>
   map_of (sharding_specs (strategy_with None)) operand_input = Some layout_input \<and>
   get_sharded_shape_per_device layout_input = Inr [8, 4] \<and>
   element_size (data_dtype operand_input) = 4 \<and>
   compute_size_in_bytes sample_generator (strategy_with None) ''input'' = Inr 128"
proof -
  have known: "self_op_data sample_generator ''input'' = Some operand_input"
    by (simp add: sample_generator_def)
  have layout: "map_of (sharding_specs (strategy_with None)) operand_input = Some layout_input"
    by (simp add: strategy_with_def)
  have shape: "get_sharded_shape_per_device layout_input = Inr [8, 4]"
    by (simp add: get_sharded_shape_per_device_def layout_input_def mesh_2x4_def)
  have bytes: "element_size (data_dtype operand_input) = 4"
    by (simp add: operand_input_def)
  from compute_size_in_bytes_product [OF known, of "strategy_with None"] layout shape
  have "compute_size_in_bytes sample_generator (strategy_with None) ''input'' =
      Inr (prod_list [8, 4] * element_size (data_dtype operand_input))"
    by blast
  then have size: "compute_size_in_bytes sample_generator (strategy_with None) ''input'' = Inr 128"
    by (simp add: bytes)
  show ?thesis
    by (rule conjI [OF known conjI [OF layout conjI [OF shape conjI [OF bytes size]]]])
qed

text \<open>
  A scalar operand has the empty per-device shape, and \<^verbatim>\<open>reduce\<close> without an initial
  value raises \<^verbatim>\<open>TypeError\<close> on it: the helper gives no size for a scalar.
\<close>

lemma compute_size_in_bytes_scalar:
  "compute_size_in_bytes sample_generator
     ((strategy_with None)\<lparr>sharding_specs := [(operand_scalar, layout_scalar)]\<rparr>) ''scale'' =
     Inl TypeError"
  by (simp add: compute_size_in_bytes_def sample_generator_def
      get_sharded_shape_per_device_def layout_scalar_def)

end
